theory Spec2Isabelle
  imports Complex_Main
begin

section \<open>Disease classification (utils/disease\_classifier.py)\<close>

text \<open>
  Python floats are modelled as exact reals, Python ints as \<open>int\<close>, and detector labels
  as strings of ASCII characters. The class list read from \<open>data.yaml\<close> is a parameter
  of the model; \<open>get_default_classes\<close> is the list used when the file is absent.
\<close>

datatype SeverityLevel = LOW | MEDIUM | HIGH | CRITICAL

datatype DiseaseType = FUNGAL | BACTERIAL | VIRAL | PEST | NUTRITIONAL | ENVIRONMENTAL

fun severity_value :: "SeverityLevel \<Rightarrow> string" where
  "severity_value LOW = ''low''"
| "severity_value MEDIUM = ''medium''"
| "severity_value HIGH = ''high''"
| "severity_value CRITICAL = ''critical''"

fun type_value :: "DiseaseType \<Rightarrow> string" where
  "type_value FUNGAL = ''fungal''"
| "type_value BACTERIAL = ''bacterial''"
| "type_value VIRAL = ''viral''"
| "type_value PEST = ''pest''"
| "type_value NUTRITIONAL = ''nutritional''"
| "type_value ENVIRONMENTAL = ''environmental''"

record DiseaseInfo =
  name :: string
  dtype :: DiseaseType
  severity :: SeverityLevel
  impact_score :: real
  spreading_rate :: string
  treatment_priority :: int

definition get_default_classes :: "string list" where
  "get_default_classes =
     [''healthy'', ''blight'', ''leaf_spot'', ''rust'', ''mildew'', ''virus_disease'',
      ''anthracnose'', ''rot_disease'', ''scab'', ''pest_damage'', ''bacterial_disease'']"

text \<open>The literal \<open>consolidated_disease_info\<close>: type, severity, impact score, priority,
  spreading rate, in the order of the source.\<close>

definition consolidated_disease_info ::
  "(string \<times> DiseaseType \<times> SeverityLevel \<times> real \<times> int \<times> string) list" where
  "consolidated_disease_info =
     [(''healthy'', ENVIRONMENTAL, LOW, 0, 1, ''none''),
      (''blight'', FUNGAL, HIGH, 85, 5, ''fast''),
      (''leaf_spot'', FUNGAL, MEDIUM, 60, 3, ''medium''),
      (''rust'', FUNGAL, MEDIUM, 65, 3, ''medium''),
      (''mildew'', FUNGAL, MEDIUM, 55, 3, ''medium''),
      (''virus_disease'', VIRAL, HIGH, 80, 4, ''fast''),
      (''anthracnose'', FUNGAL, MEDIUM, 65, 3, ''medium''),
      (''rot_disease'', FUNGAL, HIGH, 75, 4, ''medium''),
      (''scab'', FUNGAL, MEDIUM, 50, 2, ''slow''),
      (''pest_damage'', PEST, MEDIUM, 55, 3, ''medium''),
      (''bacterial_disease'', BACTERIAL, HIGH, 70, 4, ''fast'')]"

text \<open>\<open>str.lower\<close> on ASCII letters.\<close>

definition lower_char :: "char \<Rightarrow> char" where
  "lower_char c =
     (let n = (of_char c :: nat) in if 65 \<le> n \<and> n \<le> 90 then char_of (n + 32) else c)"

definition lower :: "string \<Rightarrow> string" where
  "lower s = map lower_char s"

text \<open>\<open>k in s\<close> on strings: \<open>k\<close> occurs in \<open>s\<close> as a contiguous substring.\<close>

fun str_in :: "string \<Rightarrow> string \<Rightarrow> bool" where
  "str_in k [] = (k = [])"
| "str_in k (c # s) = (take (length k) (c # s) = k \<or> str_in k s)"

definition classify_unknown_disease :: "string \<Rightarrow> DiseaseInfo" where
  "classify_unknown_disease disease_name =
     (let disease_lower = lower disease_name in
      if list_ex (\<lambda>keyword. str_in keyword disease_lower)
           [''critical'', ''severe'', ''wilt'', ''death'', ''dead'']
      then \<lparr>name = disease_name, dtype = FUNGAL, severity = CRITICAL, impact_score = 90,
            spreading_rate = ''fast'', treatment_priority = 5\<rparr>
      else \<lparr>name = disease_name, dtype = FUNGAL, severity = MEDIUM, impact_score = 50,
            spreading_rate = ''medium'', treatment_priority = 2\<rparr>)"

text \<open>The body of the loop of \<open>_build_disease_database\<close>: the entry stored for one
  class name.\<close>

definition disease_entry :: "string \<Rightarrow> DiseaseInfo" where
  "disease_entry disease_name =
     (case map_of consolidated_disease_info disease_name of
        Some (t, sev, imp, prio, spread) \<Rightarrow>
          \<lparr>name = disease_name, dtype = t, severity = sev, impact_score = imp,
           spreading_rate = spread, treatment_priority = prio\<rparr>
      | None \<Rightarrow> classify_unknown_disease disease_name)"

fun build_loop :: "string list \<Rightarrow> (string \<rightharpoonup> DiseaseInfo) \<Rightarrow> (string \<rightharpoonup> DiseaseInfo)" where
  "build_loop [] disease_db = disease_db"
| "build_loop (disease_name # rest) disease_db =
     build_loop rest (disease_db(disease_name \<mapsto> disease_entry disease_name))"

definition build_disease_database :: "string list \<Rightarrow> (string \<rightharpoonup> DiseaseInfo)" where
  "build_disease_database disease_classes = build_loop disease_classes Map.empty"

definition get_disease_info :: "string list \<Rightarrow> string \<Rightarrow> DiseaseInfo option" where
  "get_disease_info disease_classes disease_name =
     build_disease_database disease_classes disease_name"

text \<open>\<open>CropDatabase._get_severity_from_impact\<close> (utils/crop\_database.py): the fixed
  thresholds from impact score to severity tier.\<close>

definition get_severity_from_impact :: "real \<Rightarrow> SeverityLevel" where
  "get_severity_from_impact impact =
     (if impact \<ge> 90 then CRITICAL
      else if impact \<ge> 75 then HIGH
      else if impact \<ge> 50 then MEDIUM
      else LOW)"

record Classification =
  c_class_name :: string
  c_type :: string
  c_severity :: string
  c_impact_score :: real
  c_confidence :: real
  c_treatment_priority :: int
  c_spreading_rate :: "string option"
  c_weighted_impact :: real
  c_area :: "real option"

text \<open>The dictionary returned by \<open>classify_detection\<close>. The key \<open>spreading_rate\<close> is
  absent from the dictionary of an unmatched label (\<open>None\<close>); the key \<open>area\<close> is only
  added later, by \<open>_analyze_detections\<close>.\<close>

definition classify_detection :: "string list \<Rightarrow> string \<Rightarrow> real \<Rightarrow> Classification" where
  "classify_detection disease_classes cname conf =
     (case get_disease_info disease_classes cname of
        None \<Rightarrow>
          \<lparr>c_class_name = cname, c_type = ''unknown'', c_severity = ''unknown'',
           c_impact_score = 50, c_confidence = conf, c_treatment_priority = 2,
           c_spreading_rate = None, c_weighted_impact = 50 * conf, c_area = None\<rparr>
      | Some disease_info \<Rightarrow>
          (let adjusted_impact = impact_score disease_info * conf in
           \<lparr>c_class_name = cname, c_type = type_value (dtype disease_info),
            c_severity = severity_value (severity disease_info),
            c_impact_score = impact_score disease_info, c_confidence = conf,
            c_treatment_priority = treatment_priority disease_info,
            c_spreading_rate = Some (spreading_rate disease_info),
            c_weighted_impact = adjusted_impact, c_area = None\<rparr>))"

definition get_treatment_recommendations :: "string list \<Rightarrow> string \<Rightarrow> string list" where
  "get_treatment_recommendations disease_classes disease_name =
     (case get_disease_info disease_classes disease_name of
        None \<Rightarrow> [''Consult agricultural expert for proper diagnosis'']
      | Some disease_info \<Rightarrow>
          (let recommendations =
             (if dtype disease_info = FUNGAL then
                [''Apply appropriate fungicide treatment'',
                 ''Improve air circulation around plants'',
                 ''Avoid overhead watering'']
              else if dtype disease_info = BACTERIAL then
                [''Remove and destroy infected plant material'',
                 ''Apply copper-based bactericide if available'',
                 ''Avoid working with wet plants'']
              else if dtype disease_info = VIRAL then
                [''Remove infected plants to prevent spread'',
                 ''Control insect vectors'',
                 ''Use virus-free planting material'']
              else if dtype disease_info = PEST then
                [''Apply appropriate insecticide or miticide'',
                 ''Use biological control methods if available'',
                 ''Monitor pest population regularly'']
              else [])
           in if severity disease_info \<in> {HIGH, CRITICAL}
              then ''URGENT: Take immediate action'' # recommendations
              else recommendations))"

text \<open>The block that each branch of \<open>get_treatment_recommendations\<close> appends, by
  disease type; the types \<open>NUTRITIONAL\<close> and \<open>ENVIRONMENTAL\<close> have no branch.\<close>

fun type_block :: "DiseaseType \<Rightarrow> string list" where
  "type_block FUNGAL =
     [''Apply appropriate fungicide treatment'', ''Improve air circulation around plants'',
      ''Avoid overhead watering'']"
| "type_block BACTERIAL =
     [''Remove and destroy infected plant material'',
      ''Apply copper-based bactericide if available'', ''Avoid working with wet plants'']"
| "type_block VIRAL =
     [''Remove infected plants to prevent spread'', ''Control insect vectors'',
      ''Use virus-free planting material'']"
| "type_block PEST =
     [''Apply appropriate insecticide or miticide'',
      ''Use biological control methods if available'', ''Monitor pest population regularly'']"
| "type_block NUTRITIONAL = []"
| "type_block ENVIRONMENTAL = []"

section \<open>Health scoring (utils/health\_scorer.py, config.py)\<close>

datatype py_error = ZeroDivisionError

record DetectionResult =
  class_name :: string
  confidence :: real
  bbox :: "real \<times> real \<times> real \<times> real"
  area :: real

record SensorData =
  temperature :: "real option"
  humidity :: "real option"
  soil_moisture :: "real option"
  ph :: "real option"

record DiseaseAnalysis =
  classified_detections :: "Classification list"
  total_impact :: real
  max_priority :: int
  affected_area :: real
  detection_count :: nat

record SensorStatus =
  s_value :: real
  s_status :: string
  s_score :: real
  s_optimal_range :: "real \<times> real"

record HealthAssessment =
  overall_health :: real
  disease_score :: real
  environmental_score :: real
  risk_level :: string
  ha_confidence :: real
  recommendations :: "string list"
  detected_issues :: "Classification list"
  sensor_analysis :: "(string \<times> SensorStatus) list"

text \<open>\<open>OPTIMAL_RANGES\<close> of config.py, in the order of the literal.\<close>

definition temperature_range :: "real \<times> real" where
  "temperature_range = (18, 30)"

definition humidity_range :: "real \<times> real" where
  "humidity_range = (40, 70)"

definition moisture_range :: "real \<times> real" where
  "moisture_range = (30, 70)"

definition ph_range :: "real \<times> real" where
  "ph_range = (6, 15 / 2)"

definition OPTIMAL_RANGES :: "(string \<times> (real \<times> real)) list" where
  "OPTIMAL_RANGES =
     [(''temperature'', temperature_range), (''humidity'', humidity_range),
      (''soil_moisture'', moisture_range), (''ph'', ph_range)]"

text \<open>\<open>getattr(sensor_data, param, None)\<close>: the field of that name, \<open>None\<close> for any
  other name.\<close>

definition getattr :: "SensorData \<Rightarrow> string \<Rightarrow> real option" where
  "getattr sensor_data param =
     (if param = ''temperature'' then temperature sensor_data
      else if param = ''humidity'' then humidity sensor_data
      else if param = ''soil_moisture'' then soil_moisture sensor_data
      else if param = ''ph'' then ph sensor_data
      else None)"

text \<open>The loop of \<open>_analyze_detections\<close>, with its four accumulators.\<close>

fun analyze_loop ::
  "string list \<Rightarrow> DetectionResult list \<Rightarrow> Classification list \<Rightarrow> real \<Rightarrow> int \<Rightarrow> real
     \<Rightarrow> Classification list \<times> real \<times> int \<times> real" where
  "analyze_loop disease_classes [] classified timpact mprio tarea =
     (classified, timpact, mprio, tarea)"
| "analyze_loop disease_classes (detection # rest) classified timpact mprio tarea =
     (let classification =
        (classify_detection disease_classes (class_name detection) (confidence detection))
          \<lparr>c_area := Some (area detection)\<rparr>
      in analyze_loop disease_classes rest (classified @ [classification])
           (timpact + c_weighted_impact classification)
           (max mprio (c_treatment_priority classification))
           (tarea + area detection))"

definition analyze_detections :: "string list \<Rightarrow> DetectionResult list \<Rightarrow> DiseaseAnalysis" where
  "analyze_detections disease_classes detections =
     (case analyze_loop disease_classes detections [] 0 0 0 of
        (classified, timpact, mprio, tarea) \<Rightarrow>
          \<lparr>classified_detections = classified, total_impact = timpact,
           max_priority = mprio, affected_area = tarea,
           detection_count = length detections\<rparr>)"

definition calculate_disease_score :: "DiseaseAnalysis \<Rightarrow> real" where
  "calculate_disease_score disease_analysis =
     (if detection_count disease_analysis = 0 then 100
      else
        (let base_impact = total_impact disease_analysis / real (detection_count disease_analysis);
             area_penalty = min 30 (affected_area disease_analysis * 100);
             priority_penalty = real_of_int (max_priority disease_analysis * 5);
             total_penalty = base_impact + area_penalty + priority_penalty
         in max 0 (100 - total_penalty)))"

text \<open>\<open>_score_parameter\<close>. Outside the range the source divides by \<open>range_size\<close>, which
  raises when the range has width zero.\<close>

definition score_parameter :: "real \<Rightarrow> real \<times> real \<Rightarrow> py_error + real" where
  "score_parameter v optimal_range =
     (case optimal_range of (min_val, max_val) \<Rightarrow>
        (let range_size = max_val - min_val in
         if min_val \<le> v \<and> v \<le> max_val then Inr 100
         else if v < min_val then
           (if range_size = 0 then Inl ZeroDivisionError
            else (let deviation = (min_val - v) / range_size in Inr (max 0 (100 - deviation * 100))))
         else
           (if range_size = 0 then Inl ZeroDivisionError
            else (let deviation = (v - max_val) / range_size in Inr (max 0 (100 - deviation * 100))))))"

text \<open>The loop of \<open>_calculate_environmental_score\<close> over \<open>OPTIMAL_RANGES.items()\<close>.\<close>

fun env_scores_loop ::
  "SensorData \<Rightarrow> (string \<times> (real \<times> real)) list \<Rightarrow> real list \<Rightarrow> py_error + real list" where
  "env_scores_loop sensor_data [] scores = Inr scores"
| "env_scores_loop sensor_data ((param, optimal_range) # rest) scores =
     (case getattr sensor_data param of
        None \<Rightarrow> env_scores_loop sensor_data rest scores
      | Some v \<Rightarrow>
          (case score_parameter v optimal_range of
             Inl e \<Rightarrow> Inl e
           | Inr score \<Rightarrow> env_scores_loop sensor_data rest (scores @ [score])))"

definition mean :: "real list \<Rightarrow> real" where
  "mean xs = sum_list xs / real (length xs)"

definition calculate_environmental_score :: "SensorData option \<Rightarrow> py_error + real" where
  "calculate_environmental_score sensor =
     (case sensor of
        None \<Rightarrow> Inr 75
      | Some sensor_data \<Rightarrow>
          (case env_scores_loop sensor_data OPTIMAL_RANGES [] of
             Inl e \<Rightarrow> Inl e
           | Inr scores \<Rightarrow> Inr (if scores \<noteq> [] then mean scores else 75)))"

definition determine_risk_level :: "real \<Rightarrow> DiseaseAnalysis \<Rightarrow> string" where
  "determine_risk_level health_score disease_analysis =
     (let risk =
        (if health_score \<ge> 80 then ''low''
         else if health_score \<ge> 60 then ''medium''
         else if health_score \<ge> 30 then ''high''
         else ''critical'')
      in if max_priority disease_analysis \<ge> 4
         then (if risk = ''low'' then ''medium''
               else if risk = ''medium'' then ''high''
               else risk)
         else risk)"

definition calculate_confidence :: "DetectionResult list \<Rightarrow> SensorData option \<Rightarrow> real" where
  "calculate_confidence detections sensor =
     (let detection_factor =
        (if detections \<noteq> [] then mean (map confidence detections) * 100 else 90);
          sensor_factor =
        (case sensor of
           Some sensor_data \<Rightarrow>
             (let available_sensors =
                length (filter (\<lambda>param. getattr sensor_data param \<noteq> None)
                  [''temperature'', ''humidity'', ''soil_moisture'', ''ph''])
              in (real available_sensors / 4) * 100)
         | None \<Rightarrow> 50)
      in mean [detection_factor, sensor_factor])"

definition get_environmental_recommendations :: "SensorData \<Rightarrow> string list" where
  "get_environmental_recommendations sensor_data =
     (case temperature sensor_data of
        None \<Rightarrow> []
      | Some t \<Rightarrow>
          (if t < fst temperature_range then [''Provide protection from cold temperatures'']
           else if t > snd temperature_range then [''Provide shade or cooling measures'']
           else []))
     @ (case humidity sensor_data of
        None \<Rightarrow> []
      | Some h \<Rightarrow>
          (if h < fst humidity_range then [''Increase humidity around plants'']
           else if h > snd humidity_range then [''Improve ventilation to reduce humidity'']
           else []))
     @ (case soil_moisture sensor_data of
        None \<Rightarrow> []
      | Some m \<Rightarrow>
          (if m < fst moisture_range then [''Increase watering frequency'']
           else if m > snd moisture_range then [''Reduce watering to prevent root rot'']
           else []))"

text \<open>The loop that removes duplicates: \<open>seen\<close> is the set, \<open>unique_recs\<close> the list.\<close>

fun unique_loop :: "string list \<Rightarrow> string set \<Rightarrow> string list \<Rightarrow> string list" where
  "unique_loop [] seen unique_recs = unique_recs"
| "unique_loop (rec # rest) seen unique_recs =
     (if rec \<notin> seen then unique_loop rest (insert rec seen) (unique_recs @ [rec])
      else unique_loop rest seen unique_recs)"

text \<open>The loop over \<open>classified_detections[:3]\<close>.\<close>

fun disease_recs_loop :: "string list \<Rightarrow> Classification list \<Rightarrow> string list \<Rightarrow> string list" where
  "disease_recs_loop disease_classes [] recs = recs"
| "disease_recs_loop disease_classes (detection # rest) recs =
     (let disease_recs = get_treatment_recommendations disease_classes (c_class_name detection)
      in disease_recs_loop disease_classes rest (recs @ take 2 disease_recs))"

definition generate_recommendations ::
  "string list \<Rightarrow> DiseaseAnalysis \<Rightarrow> SensorData option \<Rightarrow> string list" where
  "generate_recommendations disease_classes disease_analysis sensor =
     (let recs1 = disease_recs_loop disease_classes
                    (take 3 (classified_detections disease_analysis)) [];
          recs2 = (case sensor of
                     Some sensor_data \<Rightarrow> recs1 @ get_environmental_recommendations sensor_data
                   | None \<Rightarrow> recs1);
          recs3 = (if max_priority disease_analysis \<ge> 3
                   then recs2 @ [''Schedule follow-up inspection within 3-5 days'']
                   else recs2);
          unique_recs = unique_loop recs3 {} []
      in take 8 unique_recs)"

text \<open>The loop of \<open>_analyze_sensor_data\<close>; the dictionary is kept as the list of its
  items in insertion order.\<close>

fun sensor_analysis_loop ::
  "SensorData \<Rightarrow> (string \<times> (real \<times> real)) list \<Rightarrow> (string \<times> SensorStatus) list
     \<Rightarrow> py_error + (string \<times> SensorStatus) list" where
  "sensor_analysis_loop sensor_data [] analysis = Inr analysis"
| "sensor_analysis_loop sensor_data ((param, optimal_range) # rest) analysis =
     (case getattr sensor_data param of
        None \<Rightarrow> sensor_analysis_loop sensor_data rest analysis
      | Some v \<Rightarrow>
          (case score_parameter v optimal_range of
             Inl e \<Rightarrow> Inl e
           | Inr score \<Rightarrow>
               (let status = (if score \<ge> 80 then ''optimal''
                              else if score \<ge> 60 then ''acceptable''
                              else ''poor'')
                in sensor_analysis_loop sensor_data rest
                     (analysis @ [(param, \<lparr>s_value = v, s_status = status, s_score = score,
                                           s_optimal_range = optimal_range\<rparr>)]))))"

definition analyze_sensor_data :: "SensorData option \<Rightarrow> py_error + (string \<times> SensorStatus) list" where
  "analyze_sensor_data sensor =
     (case sensor of
        None \<Rightarrow> Inr []
      | Some sensor_data \<Rightarrow> sensor_analysis_loop sensor_data OPTIMAL_RANGES [])"

definition calculate_health_score ::
  "string list \<Rightarrow> DetectionResult list \<Rightarrow> SensorData option \<Rightarrow> py_error + HealthAssessment" where
  "calculate_health_score disease_classes detections sensor =
     (let disease_analysis = analyze_detections disease_classes detections;
          dscore = calculate_disease_score disease_analysis
      in case calculate_environmental_score sensor of
           Inl e \<Rightarrow> Inl e
         | Inr env_score \<Rightarrow>
             (let disease_weight = 7 / 10;
                  env_weight = 3 / 10;
                  overall = dscore * disease_weight + env_score * env_weight;
                  risk = determine_risk_level overall disease_analysis;
                  conf = calculate_confidence detections sensor;
                  recs = generate_recommendations disease_classes disease_analysis sensor
              in case analyze_sensor_data sensor of
                   Inl e \<Rightarrow> Inl e
                 | Inr sanalysis \<Rightarrow>
                     Inr \<lparr>overall_health = overall, disease_score = dscore,
                          environmental_score = env_score, risk_level = risk,
                          ha_confidence = conf, recommendations = recs,
                          detected_issues = classified_detections disease_analysis,
                          sensor_analysis = sanalysis\<rparr>))"

section \<open>Reference formulations of the specification\<close>

text \<open>The per-parameter score as the specification words it: 100 inside the range,
  otherwise a linear penalty on the distance to the nearest bound, relative to the width
  of the range.\<close>

definition nearest_bound :: "real \<Rightarrow> real \<Rightarrow> real \<Rightarrow> real" where
  "nearest_bound lo hi v = (if \<bar>v - lo\<bar> \<le> \<bar>v - hi\<bar> then lo else hi)"

definition spec_score :: "real \<Rightarrow> real \<Rightarrow> real \<Rightarrow> real" where
  "spec_score lo hi v =
     (if lo \<le> v \<and> v \<le> hi then 100
      else max 0 (100 - 100 * \<bar>v - nearest_bound lo hi v\<bar> / (hi - lo)))"

text \<open>The distance of a value from the range.\<close>

definition range_distance :: "real \<Rightarrow> real \<Rightarrow> real \<Rightarrow> real" where
  "range_distance lo hi v = (if v < lo then lo - v else if hi < v then v - hi else 0)"

text \<open>The scores of the parameters that are present in a sensor reading.\<close>

definition present_scores :: "SensorData \<Rightarrow> real list" where
  "present_scores sd =
     concat (map (\<lambda>(field, lo, hi). case field of None \<Rightarrow> [] | Some v \<Rightarrow> [spec_score lo hi v])
       [(temperature sd, temperature_range), (humidity sd, humidity_range),
        (soil_moisture sd, moisture_range), (ph sd, ph_range)])"

text \<open>Removing duplicates while keeping the first occurrence of every element.\<close>

fun dedup_first :: "'a list \<Rightarrow> 'a list" where
  "dedup_first [] = []"
| "dedup_first (x # xs) = x # dedup_first (filter (\<lambda>y. y \<noteq> x) xs)"

section \<open>The table built by the classifier\<close>

lemma build_loop_lookup:
  "build_loop cs db k = (if k \<in> set cs then Some (disease_entry k) else db k)"
  by (induction cs arbitrary: db) auto

lemma get_disease_info_lookup:
  "get_disease_info cs k = (if k \<in> set cs then Some (disease_entry k) else None)"
  by (simp add: get_disease_info_def build_disease_database_def build_loop_lookup)

lemma classify_unknown_disease_cases:
  "classify_unknown_disease n =
      \<lparr>name = n, dtype = FUNGAL, severity = CRITICAL, impact_score = 90,
       spreading_rate = ''fast'', treatment_priority = 5\<rparr>
   \<or> classify_unknown_disease n =
      \<lparr>name = n, dtype = FUNGAL, severity = MEDIUM, impact_score = 50,
       spreading_rate = ''medium'', treatment_priority = 2\<rparr>"
  by (simp add: classify_unknown_disease_def Let_def)

lemma consolidated_all_consistent:
  "list_all (\<lambda>(n, t, sev, imp, prio, spread).
      n = ''bacterial_disease'' \<or> sev = get_severity_from_impact imp) consolidated_disease_info"
  unfolding consolidated_disease_info_def get_severity_from_impact_def
  by simp

lemma consolidated_member_consistent:
  assumes "(n, t, sev, imp, prio, spread) \<in> set consolidated_disease_info"
    and "n \<noteq> ''bacterial_disease''"
  shows "sev = get_severity_from_impact imp"
  using consolidated_all_consistent assms unfolding list_all_iff by fastforce

lemma disease_entry_consistent:
  assumes "n \<noteq> ''bacterial_disease''"
  shows "severity (disease_entry n) = get_severity_from_impact (impact_score (disease_entry n))"
proof (cases "map_of consolidated_disease_info n")
  case None
  then have "disease_entry n = classify_unknown_disease n"
    by (simp add: disease_entry_def)
  with classify_unknown_disease_cases [of n] show ?thesis
    by (auto simp: get_severity_from_impact_def)
next
  case (Some v)
  obtain t sev imp prio spread where v: "v = (t, sev, imp, prio, spread)"
    by (cases v) auto
  from Some v have "(n, t, sev, imp, prio, spread) \<in> set consolidated_disease_info"
    by (auto dest: map_of_SomeD)
  from consolidated_member_consistent [OF this assms] Some v show ?thesis
    by (simp add: disease_entry_def)
qed

lemma disease_entry_bacterial:
  "disease_entry ''bacterial_disease'' =
     \<lparr>name = ''bacterial_disease'', dtype = BACTERIAL, severity = HIGH, impact_score = 70,
      spreading_rate = ''fast'', treatment_priority = 4\<rparr>"
  by (simp add: disease_entry_def consolidated_disease_info_def)

lemma disease_entry_blight:
  "disease_entry ''blight'' =
     \<lparr>name = ''blight'', dtype = FUNGAL, severity = HIGH, impact_score = 85,
      spreading_rate = ''fast'', treatment_priority = 5\<rparr>"
  by (simp add: disease_entry_def consolidated_disease_info_def)

lemma disease_entry_healthy:
  "disease_entry ''healthy'' =
     \<lparr>name = ''healthy'', dtype = ENVIRONMENTAL, severity = LOW, impact_score = 0,
      spreading_rate = ''none'', treatment_priority = 1\<rparr>"
  by (simp add: disease_entry_def consolidated_disease_info_def)

text \<open>
  C1 (amended). Every entry of the table built from any class list has the severity tier
  that the thresholds (90 critical, 75 high, 50 medium, else low) give for its impact
  score, except the entry \<open>bacterial_disease\<close>, which has impact score 70 and tier high.
\<close>

theorem C1_severity_consistent_except_bacterial:
  assumes "get_disease_info disease_classes k = Some e"
  shows "(k \<noteq> ''bacterial_disease'' \<longrightarrow>
            severity e = get_severity_from_impact (impact_score e))
       \<and> (k = ''bacterial_disease'' \<longrightarrow> impact_score e = 70 \<and> severity e = HIGH)"
proof -
  from assms have e: "e = disease_entry k"
    by (simp add: get_disease_info_lookup split: if_splits)
  show ?thesis
    unfolding e using disease_entry_consistent [of k] disease_entry_bacterial by auto
qed

theorem C1_severity_consistent_witness:
  "get_disease_info get_default_classes ''blight'' = Some (disease_entry ''blight'')
   \<and> ''blight'' \<noteq> ''bacterial_disease''
   \<and> severity (disease_entry ''blight'') = HIGH
   \<and> get_severity_from_impact (impact_score (disease_entry ''blight'')) = HIGH"
proof -
  have h: "get_disease_info get_default_classes ''blight'' = Some (disease_entry ''blight'')"
    by (simp add: get_disease_info_lookup get_default_classes_def)
  from C1_severity_consistent_except_bacterial [OF h] show ?thesis
    using h by (simp add: disease_entry_blight)
qed

theorem C1_bacterial_disease_counterexample:
  "map_option impact_score (get_disease_info get_default_classes ''bacterial_disease'') = Some 70
   \<and> map_option severity (get_disease_info get_default_classes ''bacterial_disease'') = Some HIGH
   \<and> get_severity_from_impact 70 = MEDIUM"
  by (simp add: get_disease_info_lookup get_default_classes_def disease_entry_bacterial
      get_severity_from_impact_def)

section \<open>Lookup and classification of one detection\<close>

lemma classify_detection_unmatched:
  assumes "label \<notin> set disease_classes"
  shows "classify_detection disease_classes label conf =
     \<lparr>c_class_name = label, c_type = ''unknown'', c_severity = ''unknown'',
      c_impact_score = 50, c_confidence = conf, c_treatment_priority = 2,
      c_spreading_rate = None, c_weighted_impact = 50 * conf, c_area = None\<rparr>"
  using assms by (simp add: classify_detection_def get_disease_info_lookup)

lemma classify_detection_matched:
  assumes "label \<in> set disease_classes"
  shows "classify_detection disease_classes label conf =
     \<lparr>c_class_name = label, c_type = type_value (dtype (disease_entry label)),
      c_severity = severity_value (severity (disease_entry label)),
      c_impact_score = impact_score (disease_entry label), c_confidence = conf,
      c_treatment_priority = treatment_priority (disease_entry label),
      c_spreading_rate = Some (spreading_rate (disease_entry label)),
      c_weighted_impact = impact_score (disease_entry label) * conf, c_area = None\<rparr>"
  using assms by (simp add: classify_detection_def get_disease_info_lookup)

text \<open>
  C2 (amended). The lookup used by the scorer is an exact match on the table keys and
  nothing else: for every label that is not an exact table key, \<open>get_disease_info\<close>
  finds no record, whatever keys occur inside the label, and the classification is the
  default one (type unknown, impact score 50, priority 2). No alias map and no fuzzy
  match is consulted.
\<close>

theorem C2_lookup_is_exact_match_only:
  assumes "label \<notin> set disease_classes"
  shows "get_disease_info disease_classes label = None
       \<and> c_type (classify_detection disease_classes label conf) = ''unknown''
       \<and> c_impact_score (classify_detection disease_classes label conf) = 50
       \<and> c_treatment_priority (classify_detection disease_classes label conf) = 2"
  using assms
  by (simp add: get_disease_info_lookup classify_detection_unmatched)

theorem C2_lookup_is_exact_match_only_witness:
  "''tomato bacterial leaf spot'' \<notin> set [''bacterial spot'', ''blight'']
   \<and> get_disease_info [''bacterial spot'', ''blight''] ''tomato bacterial leaf spot'' = None
   \<and> c_type (classify_detection [''bacterial spot'', ''blight'']
                ''tomato bacterial leaf spot'' (9 / 10)) = ''unknown''
   \<and> c_impact_score (classify_detection [''bacterial spot'', ''blight'']
                ''tomato bacterial leaf spot'' (9 / 10)) = 50
   \<and> c_treatment_priority (classify_detection [''bacterial spot'', ''blight'']
                ''tomato bacterial leaf spot'' (9 / 10)) = 2"
proof -
  have h: "''tomato bacterial leaf spot'' \<notin> set [''bacterial spot'', ''blight'']"
    by simp
  from C2_lookup_is_exact_match_only [OF h, of "9 / 10"] h show ?thesis
    by blast
qed

text \<open>
  The claim as stated fails: the key \<open>blight\<close> of the default table is a substring of the
  lowercased label \<open>tomato blight\<close>, and the token \<open>bacterial\<close> of a key
  \<open>bacterial spot\<close> occurs in \<open>tomato bacterial leaf spot\<close>, yet neither label is
  resolved to a record.
\<close>

theorem C2_fuzzy_match_counterexample:
  "''blight'' \<in> set get_default_classes
   \<and> str_in ''blight'' (lower ''tomato blight'')
   \<and> get_disease_info get_default_classes ''tomato blight'' = None
   \<and> c_type (classify_detection get_default_classes ''tomato blight'' 1) = ''unknown''
   \<and> str_in ''bacterial'' (lower ''tomato bacterial leaf spot'')
   \<and> get_disease_info [''bacterial spot''] ''tomato bacterial leaf spot'' = None
   \<and> c_type (classify_detection [''bacterial spot''] ''tomato bacterial leaf spot'' 1)
       = ''unknown''"
  by (simp add: get_disease_info_lookup classify_detection_def get_default_classes_def
      lower_def lower_char_def)

text \<open>
  C3 (amended). Classifying a detection is total. When the label matches no table entry
  the result is the default record with type unknown, severity \<open>unknown\<close>, impact score
  50, treatment priority 2, no spreading rate, and weighted impact 50 times the
  confidence.
\<close>

theorem C3_unmatched_label_default_record:
  assumes "label \<notin> set disease_classes"
  shows "classify_detection disease_classes label conf =
     \<lparr>c_class_name = label, c_type = ''unknown'', c_severity = ''unknown'',
      c_impact_score = 50, c_confidence = conf, c_treatment_priority = 2,
      c_spreading_rate = None, c_weighted_impact = 50 * conf, c_area = None\<rparr>"
  using assms by (rule classify_detection_unmatched)

theorem C3_unmatched_label_witness:
  "''xyz_unrecognized_tag'' \<notin> set get_default_classes
   \<and> classify_detection get_default_classes ''xyz_unrecognized_tag'' (6 / 10) =
     \<lparr>c_class_name = ''xyz_unrecognized_tag'', c_type = ''unknown'', c_severity = ''unknown'',
      c_impact_score = 50, c_confidence = 6 / 10, c_treatment_priority = 2,
      c_spreading_rate = None, c_weighted_impact = 30, c_area = None\<rparr>"
proof -
  have h: "''xyz_unrecognized_tag'' \<notin> set get_default_classes"
    by (simp add: get_default_classes_def)
  from C3_unmatched_label_default_record [OF h, of "6 / 10"] h show ?thesis
    by simp
qed

theorem C3_default_severity_counterexample:
  "c_severity (classify_detection get_default_classes ''xyz_unrecognized_tag'' (6 / 10))
     \<noteq> ''medium''
   \<and> c_spreading_rate (classify_detection get_default_classes ''xyz_unrecognized_tag'' (6 / 10))
     \<noteq> Some ''medium''"
  by (simp add: get_disease_info_lookup classify_detection_def get_default_classes_def)

section \<open>Treatment recommendations\<close>

lemma treatment_recommendations_unmatched:
  assumes "label \<notin> set disease_classes"
  shows "get_treatment_recommendations disease_classes label =
           [''Consult agricultural expert for proper diagnosis'']"
  using assms by (simp add: get_treatment_recommendations_def get_disease_info_lookup)

lemma treatment_recommendations_matched:
  assumes "label \<in> set disease_classes"
  shows "get_treatment_recommendations disease_classes label =
           (if severity (disease_entry label) = HIGH \<or> severity (disease_entry label) = CRITICAL
            then [''URGENT: Take immediate action''] else [])
           @ type_block (dtype (disease_entry label))"
  using assms
  by (cases "dtype (disease_entry label)")
     (simp_all add: get_treatment_recommendations_def get_disease_info_lookup)

text \<open>
  C8 (amended). For a label that is a table key, the recommendations are the block of the
  entry's type: the fungal, bacterial, viral or pest block for those four types, and the
  empty block for the types nutritional and environmental; when the entry's severity tier
  is high or critical, \<open>URGENT: Take immediate action\<close> is put in front of the block, so
  that the first two items are the urgency text and the first item of the block. For a
  label that is not a table key, the result is the single recommendation
  \<open>Consult agricultural expert for proper diagnosis\<close>.
\<close>

theorem C8_treatment_recommendation_blocks:
  "(label \<notin> set disease_classes \<longrightarrow>
      get_treatment_recommendations disease_classes label =
        [''Consult agricultural expert for proper diagnosis''])
   \<and> (label \<in> set disease_classes \<longrightarrow>
      get_treatment_recommendations disease_classes label =
        (if severity (disease_entry label) = HIGH \<or> severity (disease_entry label) = CRITICAL
         then [''URGENT: Take immediate action''] else [])
        @ type_block (dtype (disease_entry label)))
   \<and> (label \<in> set disease_classes
        \<and> (severity (disease_entry label) = HIGH \<or> severity (disease_entry label) = CRITICAL)
      \<longrightarrow>
      take 2 (get_treatment_recommendations disease_classes label) =
        ''URGENT: Take immediate action'' # take 1 (type_block (dtype (disease_entry label))))"
  by (simp add: treatment_recommendations_unmatched treatment_recommendations_matched)

theorem C8_treatment_recommendation_blocks_witness:
  "''xyz'' \<notin> set get_default_classes
   \<and> get_treatment_recommendations get_default_classes ''xyz'' =
        [''Consult agricultural expert for proper diagnosis'']
   \<and> ''blight'' \<in> set get_default_classes
   \<and> severity (disease_entry ''blight'') = HIGH
   \<and> get_treatment_recommendations get_default_classes ''blight'' =
        [''URGENT: Take immediate action'', ''Apply appropriate fungicide treatment'',
         ''Improve air circulation around plants'', ''Avoid overhead watering'']
   \<and> take 2 (get_treatment_recommendations get_default_classes ''blight'') =
        [''URGENT: Take immediate action'', ''Apply appropriate fungicide treatment'']"
proof -
  have h1: "''xyz'' \<notin> set get_default_classes"
    by (simp add: get_default_classes_def)
  have h2: "''blight'' \<in> set get_default_classes"
    by (simp add: get_default_classes_def)
  from C8_treatment_recommendation_blocks [of "''xyz''" get_default_classes] h1
  have a: "get_treatment_recommendations get_default_classes ''xyz'' =
        [''Consult agricultural expert for proper diagnosis'']"
    by blast
  from C8_treatment_recommendation_blocks [of "''blight''" get_default_classes] h2
  have b: "get_treatment_recommendations get_default_classes ''blight'' =
        [''URGENT: Take immediate action'', ''Apply appropriate fungicide treatment'',
         ''Improve air circulation around plants'', ''Avoid overhead watering'']"
    by (simp add: disease_entry_blight)
  from a b h1 h2 show ?thesis
    by (simp add: disease_entry_blight)
qed

theorem C8_healthy_counterexample:
  "get_disease_info get_default_classes ''healthy'' = Some (disease_entry ''healthy'')
   \<and> dtype (disease_entry ''healthy'') = ENVIRONMENTAL
   \<and> get_treatment_recommendations get_default_classes ''healthy'' = []
   \<and> get_treatment_recommendations get_default_classes ''healthy''
       \<noteq> [''Consult agricultural expert for proper diagnosis'']"
  by (simp add: get_treatment_recommendations_def get_disease_info_lookup
      get_default_classes_def disease_entry_healthy)

section \<open>Analysis of a detection sequence\<close>

lemma consolidated_all_priority:
  "list_all (\<lambda>(n, t, sev, imp, prio, spread). 1 \<le> prio \<and> prio \<le> 5 \<and> 0 \<le> imp \<and> imp \<le> 100)
     consolidated_disease_info"
  unfolding consolidated_disease_info_def by simp

lemma disease_entry_bounds:
  "1 \<le> treatment_priority (disease_entry n) \<and> treatment_priority (disease_entry n) \<le> 5
   \<and> 0 \<le> impact_score (disease_entry n) \<and> impact_score (disease_entry n) \<le> 100"
proof (cases "map_of consolidated_disease_info n")
  case None
  then have "disease_entry n = classify_unknown_disease n"
    by (simp add: disease_entry_def)
  with classify_unknown_disease_cases [of n] show ?thesis
    by auto
next
  case (Some v)
  obtain t sev imp prio spread where v: "v = (t, sev, imp, prio, spread)"
    by (cases v) auto
  from Some v have "(n, t, sev, imp, prio, spread) \<in> set consolidated_disease_info"
    by (auto dest: map_of_SomeD)
  with consolidated_all_priority
  have "1 \<le> prio \<and> prio \<le> 5 \<and> 0 \<le> imp \<and> imp \<le> 100"
    unfolding list_all_iff by fastforce
  with Some v show ?thesis
    by (simp add: disease_entry_def)
qed

lemma classify_detection_priority:
  "1 \<le> c_treatment_priority (classify_detection cs l c)
   \<and> c_treatment_priority (classify_detection cs l c) \<le> 5"
  using disease_entry_bounds [of l]
  by (cases "l \<in> set cs") (simp_all add: classify_detection_unmatched classify_detection_matched)

lemma classify_detection_impact:
  "0 \<le> c_impact_score (classify_detection cs l c)
   \<and> c_impact_score (classify_detection cs l c) \<le> 100
   \<and> c_weighted_impact (classify_detection cs l c) = c_impact_score (classify_detection cs l c) * c"
  using disease_entry_bounds [of l]
  by (cases "l \<in> set cs") (simp_all add: classify_detection_unmatched classify_detection_matched)

lemma fold_max_Max:
  fixes f :: "'a \<Rightarrow> int"
  shows "fold (\<lambda>d m. max m (f d)) ds m = Max (insert m (f ` set ds))"
proof (induction ds arbitrary: m)
  case Nil
  show ?case by simp
next
  case (Cons d ds)
  have "Max (insert (max m (f d)) (f ` set ds)) = Max (insert m (insert (f d) (f ` set ds)))"
  proof (cases "set ds = {}")
    case True
    then show ?thesis by simp
  next
    case False
    then show ?thesis by (simp add: max.assoc)
  qed
  with Cons show ?case by simp
qed

lemma analyze_loop_eq:
  "analyze_loop cs ds cl ti mp ta =
     (cl @ map (\<lambda>d. (classify_detection cs (class_name d) (confidence d))
                       \<lparr>c_area := Some (area d)\<rparr>) ds,
      ti + sum_list (map (\<lambda>d. c_weighted_impact
                        (classify_detection cs (class_name d) (confidence d))) ds),
      fold (\<lambda>d m. max m (c_treatment_priority
                        (classify_detection cs (class_name d) (confidence d)))) ds mp,
      ta + sum_list (map area ds))"
  by (induction ds arbitrary: cl ti mp ta) (simp_all add: Let_def)

lemma analyze_detections_fields:
  "classified_detections (analyze_detections cs ds) =
     map (\<lambda>d. (classify_detection cs (class_name d) (confidence d))
                 \<lparr>c_area := Some (area d)\<rparr>) ds"
  "total_impact (analyze_detections cs ds) =
     sum_list (map c_weighted_impact (classified_detections (analyze_detections cs ds)))"
  "max_priority (analyze_detections cs ds) =
     Max (insert 0 (c_treatment_priority ` set (classified_detections (analyze_detections cs ds))))"
  "affected_area (analyze_detections cs ds) = sum_list (map area ds)"
  "detection_count (analyze_detections cs ds) = length ds"
  "length (classified_detections (analyze_detections cs ds)) = length ds"
  by (simp_all add: analyze_detections_def analyze_loop_eq fold_max_Max o_def image_image)

lemma classified_priority_bounds:
  assumes "c \<in> set (classified_detections (analyze_detections cs ds))"
  shows "1 \<le> c_treatment_priority c \<and> c_treatment_priority c \<le> 5"
  using assms classify_detection_priority
  by (auto simp: analyze_detections_fields(1))

lemma max_priority_nonempty:
  assumes "ds \<noteq> []"
  shows "max_priority (analyze_detections cs ds) =
     Max (c_treatment_priority ` set (classified_detections (analyze_detections cs ds)))"
proof -
  let ?S = "c_treatment_priority ` set (classified_detections (analyze_detections cs ds))"
  from assms have ne: "?S \<noteq> {}"
    by (simp add: analyze_detections_fields(1))
  have fin: "finite ?S" by simp
  from Max_in [OF fin ne] classified_priority_bounds [of _ cs ds]
  have "1 \<le> Max ?S" by auto
  with fin ne show ?thesis
    by (simp add: analyze_detections_fields(3))
qed

text \<open>
  C4. The disease score is 100 for the empty detection sequence; otherwise it is
  \<open>max 0 (100 - baseImpact - areaPenalty - priorityPenalty)\<close>, where baseImpact is the
  arithmetic mean of the weighted impacts of the classified detections, areaPenalty is
  \<open>min 30 (total area * 100)\<close> and priorityPenalty is five times the largest treatment
  priority among the classified detections.
\<close>

theorem C4_disease_score_formula:
  "calculate_disease_score (analyze_detections disease_classes detections) =
     (if detections = [] then 100
      else max 0 (100
        - mean (map c_weighted_impact
                  (classified_detections (analyze_detections disease_classes detections)))
        - min 30 (sum_list (map area detections) * 100)
        - real_of_int (Max (c_treatment_priority `
                  set (classified_detections (analyze_detections disease_classes detections)))
             * 5)))"
proof (cases "detections = []")
  case True
  then show ?thesis
    by (simp add: calculate_disease_score_def analyze_detections_fields(5))
next
  case False
  then have len: "length detections \<noteq> 0" by simp
  show ?thesis
    using False len
    by (simp only: calculate_disease_score_def Let_def analyze_detections_fields(2,4,5,6)
          max_priority_nonempty [OF False] mean_def if_False)
       (simp add: analyze_detections_fields(6) algebra_simps)
qed

lemma leaf_spot_analysis:
  "analyze_detections get_default_classes
     [\<lparr>class_name = ''leaf_spot'', confidence = 1 / 2, bbox = (0, 0, 0, 0), area = 1 / 10\<rparr>] =
   \<lparr>classified_detections =
      [\<lparr>c_class_name = ''leaf_spot'', c_type = ''fungal'', c_severity = ''medium'',
        c_impact_score = 60, c_confidence = 1 / 2, c_treatment_priority = 3,
        c_spreading_rate = Some ''medium'', c_weighted_impact = 30, c_area = Some (1 / 10)\<rparr>],
    total_impact = 30, max_priority = 3, affected_area = 1 / 10, detection_count = 1\<rparr>"
  by (simp add: analyze_detections_def Let_def classify_detection_def get_disease_info_lookup
      get_default_classes_def disease_entry_def consolidated_disease_info_def)

theorem C4_disease_score_formula_witness:
  "calculate_disease_score (analyze_detections get_default_classes []) = 100
   \<and> calculate_disease_score (analyze_detections get_default_classes
       [\<lparr>class_name = ''leaf_spot'', confidence = 1 / 2, bbox = (0, 0, 0, 0), area = 1 / 10\<rparr>])
     = 45"
  using C4_disease_score_formula [of get_default_classes "[]"]
    C4_disease_score_formula [of get_default_classes
      "[\<lparr>class_name = ''leaf_spot'', confidence = 1 / 2, bbox = (0, 0, 0, 0), area = 1 / 10\<rparr>]"]
  by (simp add: leaf_spot_analysis mean_def)

section \<open>Risk level\<close>

lemma max_priority_ge_iff:
  "(k \<le> max_priority (analyze_detections cs ds)) =
     (k \<le> 0 \<or> (\<exists>c \<in> set (classified_detections (analyze_detections cs ds)).
                    k \<le> c_treatment_priority c))"
proof -
  let ?S = "insert 0 (c_treatment_priority ` set (classified_detections (analyze_detections cs ds)))"
  have "finite ?S" "?S \<noteq> {}" by simp_all
  then have "(k \<le> Max ?S) = (\<exists>a \<in> ?S. k \<le> a)"
    by (rule Max_ge_iff)
  then show ?thesis
    by (simp add: analyze_detections_fields(3))
qed

text \<open>
  C6. Without a classified detection of treatment priority 4 or more, the risk level is
  low from 80, medium from 60, high from 30 and critical below; with such a detection,
  low becomes medium and medium becomes high, while high and critical stay as they are.
\<close>

theorem C6_risk_level_and_escalation:
  fixes h :: real
  shows "(\<not> (\<exists>c \<in> set (classified_detections (analyze_detections disease_classes detections)).
               4 \<le> c_treatment_priority c) \<longrightarrow>
            (80 \<le> h \<longrightarrow>
               determine_risk_level h (analyze_detections disease_classes detections) = ''low'')
          \<and> (60 \<le> h \<and> h < 80 \<longrightarrow>
               determine_risk_level h (analyze_detections disease_classes detections) = ''medium'')
          \<and> (30 \<le> h \<and> h < 60 \<longrightarrow>
               determine_risk_level h (analyze_detections disease_classes detections) = ''high'')
          \<and> (h < 30 \<longrightarrow>
               determine_risk_level h (analyze_detections disease_classes detections)
                 = ''critical''))
       \<and> ((\<exists>c \<in> set (classified_detections (analyze_detections disease_classes detections)).
               4 \<le> c_treatment_priority c) \<longrightarrow>
            (80 \<le> h \<longrightarrow>
               determine_risk_level h (analyze_detections disease_classes detections) = ''medium'')
          \<and> (60 \<le> h \<and> h < 80 \<longrightarrow>
               determine_risk_level h (analyze_detections disease_classes detections) = ''high'')
          \<and> (30 \<le> h \<and> h < 60 \<longrightarrow>
               determine_risk_level h (analyze_detections disease_classes detections) = ''high'')
          \<and> (h < 30 \<longrightarrow>
               determine_risk_level h (analyze_detections disease_classes detections)
                 = ''critical''))"
proof -
  have esc: "(4 \<le> max_priority (analyze_detections disease_classes detections)) =
      (\<exists>c \<in> set (classified_detections (analyze_detections disease_classes detections)).
          4 \<le> c_treatment_priority c)"
    by (simp add: max_priority_ge_iff)
  show ?thesis
    unfolding esc [symmetric]
    by (simp add: determine_risk_level_def Let_def)
qed

lemma blight_classified:
  "classified_detections (analyze_detections get_default_classes
     [\<lparr>class_name = ''blight'', confidence = 9 / 10, bbox = (0, 0, 0, 0), area = 1 / 20\<rparr>]) =
     [\<lparr>c_class_name = ''blight'', c_type = ''fungal'', c_severity = ''high'',
       c_impact_score = 85, c_confidence = 9 / 10, c_treatment_priority = 5,
       c_spreading_rate = Some ''fast'', c_weighted_impact = 85 * (9 / 10),
       c_area = Some (1 / 20)\<rparr>]"
  by (simp add: analyze_detections_fields(1) classify_detection_def get_disease_info_lookup
      get_default_classes_def disease_entry_blight)

theorem C6_risk_level_and_escalation_witness:
  "\<not> (\<exists>c \<in> set (classified_detections (analyze_detections get_default_classes [])).
          4 \<le> c_treatment_priority c)
   \<and> (80::real) \<le> 85
   \<and> determine_risk_level 85 (analyze_detections get_default_classes []) = ''low''
   \<and> (\<exists>c \<in> set (classified_detections (analyze_detections get_default_classes
          [\<lparr>class_name = ''blight'', confidence = 9 / 10, bbox = (0, 0, 0, 0), area = 1 / 20\<rparr>])).
          4 \<le> c_treatment_priority c)
   \<and> determine_risk_level 85 (analyze_detections get_default_classes
          [\<lparr>class_name = ''blight'', confidence = 9 / 10, bbox = (0, 0, 0, 0), area = 1 / 20\<rparr>])
       = ''medium''"
proof -
  have a: "\<not> (\<exists>c \<in> set (classified_detections (analyze_detections get_default_classes [])).
          4 \<le> c_treatment_priority c)"
    by (simp add: analyze_detections_fields(1))
  have b: "\<exists>c \<in> set (classified_detections (analyze_detections get_default_classes
          [\<lparr>class_name = ''blight'', confidence = 9 / 10, bbox = (0, 0, 0, 0), area = 1 / 20\<rparr>])).
          4 \<le> c_treatment_priority c"
    unfolding blight_classified by simp
  from a C6_risk_level_and_escalation [of get_default_classes "[]" 85]
  have c: "determine_risk_level 85 (analyze_detections get_default_classes []) = ''low''"
    by simp
  from b C6_risk_level_and_escalation [of get_default_classes
          "[\<lparr>class_name = ''blight'', confidence = 9 / 10, bbox = (0, 0, 0, 0), area = 1 / 20\<rparr>]" 85]
  have d: "determine_risk_level 85 (analyze_detections get_default_classes
          [\<lparr>class_name = ''blight'', confidence = 9 / 10, bbox = (0, 0, 0, 0), area = 1 / 20\<rparr>])
       = ''medium''"
    by simp
  from a b c d show ?thesis by simp
qed

section \<open>A detection always costs at least the priority penalty\<close>

lemma max_priority_ge_1:
  assumes "ds \<noteq> []"
  shows "1 \<le> max_priority (analyze_detections cs ds)"
proof -
  from assms obtain c where c: "c \<in> set (classified_detections (analyze_detections cs ds))"
    by (cases ds) (auto simp: analyze_detections_fields(1))
  with classified_priority_bounds [OF c] show ?thesis
    unfolding max_priority_ge_iff by blast
qed

lemma total_impact_nonneg:
  assumes "\<forall>d \<in> set ds. 0 \<le> confidence d"
  shows "0 \<le> total_impact (analyze_detections cs ds)"
proof -
  have "0 \<le> sum_list (map c_weighted_impact (classified_detections (analyze_detections cs ds)))"
  proof (rule sum_list_nonneg)
    fix x assume "x \<in> set (map c_weighted_impact (classified_detections (analyze_detections cs ds)))"
    then obtain d where d: "d \<in> set ds"
      and x: "x = c_weighted_impact (classify_detection cs (class_name d) (confidence d))"
      by (auto simp: analyze_detections_fields(1))
    from d assms have "0 \<le> confidence d" by blast
    with classify_detection_impact [of cs "class_name d" "confidence d"] x
    show "0 \<le> x" by simp
  qed
  then show ?thesis
    by (simp only: analyze_detections_fields(2))
qed

lemma affected_area_nonneg:
  assumes "\<forall>d \<in> set ds. 0 \<le> area d"
  shows "0 \<le> affected_area (analyze_detections cs ds)"
  using assms by (auto simp: analyze_detections_fields(4) intro!: sum_list_nonneg)

lemma sum_list_all_zero:
  fixes f :: "'a \<Rightarrow> real"
  assumes "\<forall>x \<in> set xs. f x = 0"
  shows "sum_list (map f xs) = 0"
  using assms by (induction xs) auto

lemma healthy_analysis:
  assumes "''healthy'' \<in> set cs" and "\<forall>d \<in> set ds. class_name d = ''healthy''"
  shows "total_impact (analyze_detections cs ds) = 0"
    and "ds \<noteq> [] \<Longrightarrow> max_priority (analyze_detections cs ds) = 1"
proof -
  have cl: "\<And>c. c \<in> set (classified_detections (analyze_detections cs ds)) \<Longrightarrow>
      c_weighted_impact c = 0 \<and> c_treatment_priority c = 1"
    using assms
    by (auto simp: analyze_detections_fields(1) classify_detection_matched disease_entry_healthy)
  have "sum_list (map c_weighted_impact (classified_detections (analyze_detections cs ds))) = 0"
    using cl by (intro sum_list_all_zero) blast
  then show "total_impact (analyze_detections cs ds) = 0"
    by (simp only: analyze_detections_fields(2))
  assume ne: "ds \<noteq> []"
  then have ne': "classified_detections (analyze_detections cs ds) \<noteq> []"
    by (simp add: analyze_detections_fields(1))
  have "c_treatment_priority ` set (classified_detections (analyze_detections cs ds)) = {1}"
    using cl ne' by (cases "classified_detections (analyze_detections cs ds)") auto
  then show "max_priority (analyze_detections cs ds) = 1"
    by (simp only: max_priority_nonempty [OF ne]) simp
qed

text \<open>
  C10. For every non-empty sequence of well-formed detections (confidence and area not
  negative) the disease score is at most 95, hence below the score 100 of the empty
  sequence; when every detection is labelled \<open>healthy\<close> the score is exactly
  \<open>max 0 (95 - min 30 (total area * 100))\<close>.
\<close>

theorem C10_detection_lowers_disease_score:
  assumes "detections \<noteq> []"
    and "\<forall>d \<in> set detections. 0 \<le> confidence d \<and> 0 \<le> area d"
  shows "calculate_disease_score (analyze_detections disease_classes detections) \<le> 95
       \<and> calculate_disease_score (analyze_detections disease_classes detections)
           < calculate_disease_score (analyze_detections disease_classes [])
       \<and> (''healthy'' \<in> set disease_classes
            \<and> (\<forall>d \<in> set detections. class_name d = ''healthy'') \<longrightarrow>
          calculate_disease_score (analyze_detections disease_classes detections)
            = max 0 (95 - min 30 (sum_list (map area detections) * 100)))"
proof -
  let ?da = "analyze_detections disease_classes detections"
  from assms(1) have n: "0 < real (detection_count ?da)"
    by (simp add: analyze_detections_fields(5))
  have ti: "0 \<le> total_impact ?da"
    using assms(2) by (intro total_impact_nonneg) blast
  have ta: "0 \<le> affected_area ?da"
    using assms(2) by (intro affected_area_nonneg) blast
  have mp: "1 \<le> max_priority ?da"
    using assms(1) by (rule max_priority_ge_1)
  from n ti have base: "0 \<le> total_impact ?da / real (detection_count ?da)"
    by simp
  from ta have ap: "0 \<le> min 30 (affected_area ?da * 100)"
    by simp
  from mp have pp: "5 \<le> real_of_int (max_priority ?da * 5)"
    by simp
  have sc: "calculate_disease_score ?da =
      max 0 (100 - (total_impact ?da / real (detection_count ?da)
                    + min 30 (affected_area ?da * 100) + real_of_int (max_priority ?da * 5)))"
    using n by (simp add: calculate_disease_score_def Let_def)
  from base ap pp have le: "calculate_disease_score ?da \<le> 95"
    unfolding sc by simp
  have empty: "calculate_disease_score (analyze_detections disease_classes []) = 100"
    by (simp add: calculate_disease_score_def analyze_detections_fields(5))
  have healthy: "calculate_disease_score ?da
            = max 0 (95 - min 30 (sum_list (map area detections) * 100))"
    if h: "''healthy'' \<in> set disease_classes" "\<forall>d \<in> set detections. class_name d = ''healthy''"
    unfolding sc healthy_analysis(1) [OF h] healthy_analysis(2) [OF h assms(1)]
    by (simp add: analyze_detections_fields(4))
  from le empty healthy show ?thesis by simp
qed

theorem C10_detection_lowers_disease_score_witness:
  "[\<lparr>class_name = ''healthy'', confidence = 9 / 10, bbox = (0, 0, 0, 0), area = 1 / 10\<rparr>] \<noteq> []
   \<and> ''healthy'' \<in> set get_default_classes
   \<and> calculate_disease_score (analyze_detections get_default_classes
        [\<lparr>class_name = ''healthy'', confidence = 9 / 10, bbox = (0, 0, 0, 0), area = 1 / 10\<rparr>])
       = 85
   \<and> calculate_disease_score (analyze_detections get_default_classes []) = 100"
proof -
  have h: "''healthy'' \<in> set get_default_classes"
    by (simp add: get_default_classes_def)
  have e: "calculate_disease_score (analyze_detections get_default_classes []) = 100"
    by (simp add: calculate_disease_score_def analyze_detections_fields(5))
  from C10_detection_lowers_disease_score [of
      "[\<lparr>class_name = ''healthy'', confidence = 9 / 10, bbox = (0, 0, 0, 0), area = 1 / 10\<rparr>]"
      get_default_classes] h e
  show ?thesis by simp
qed

section \<open>Environmental score\<close>

lemma optimal_ranges_widths:
  "\<forall>(p, lo, hi) \<in> set OPTIMAL_RANGES. lo < hi"
  by (simp add: OPTIMAL_RANGES_def temperature_range_def humidity_range_def
      moisture_range_def ph_range_def)

lemma score_parameter_eq:
  assumes "lo < hi"
  shows "score_parameter v (lo, hi) = Inr (spec_score lo hi v)"
proof -
  consider "lo \<le> v \<and> v \<le> hi" | "v < lo" | "hi < v" by linarith
  then show ?thesis
  proof cases
    case 1
    then show ?thesis
      by (simp add: score_parameter_def spec_score_def)
  next
    case 2
    with assms have nb: "nearest_bound lo hi v = lo"
      by (simp add: nearest_bound_def)
    from 2 assms show ?thesis
      by (simp add: score_parameter_def spec_score_def nb Let_def mult.commute)
  next
    case 3
    with assms have nb: "nearest_bound lo hi v = hi"
      by (simp add: nearest_bound_def)
    from 3 assms show ?thesis
      by (simp add: score_parameter_def spec_score_def nb Let_def mult.commute)
  qed
qed

lemma spec_score_distance:
  assumes "lo < hi"
  shows "spec_score lo hi v = max 0 (100 - 100 * range_distance lo hi v / (hi - lo))"
proof -
  consider "lo \<le> v \<and> v \<le> hi" | "v < lo" | "hi < v" by linarith
  then show ?thesis
  proof cases
    case 1
    then show ?thesis
      by (simp add: spec_score_def range_distance_def)
  next
    case 2
    with assms have nb: "nearest_bound lo hi v = lo"
      by (simp add: nearest_bound_def)
    from 2 assms show ?thesis
      by (simp add: spec_score_def range_distance_def nb mult.commute)
  next
    case 3
    with assms have nb: "nearest_bound lo hi v = hi"
      by (simp add: nearest_bound_def)
    from 3 assms show ?thesis
      by (simp add: spec_score_def range_distance_def nb mult.commute)
  qed
qed

lemma spec_score_antimono:
  assumes "lo < hi" and "range_distance lo hi v \<le> range_distance lo hi w"
  shows "spec_score lo hi w \<le> spec_score lo hi v"
proof -
  from assms have "range_distance lo hi v / (hi - lo) \<le> range_distance lo hi w / (hi - lo)"
    by (simp add: divide_right_mono)
  then show ?thesis
    unfolding spec_score_distance [OF assms(1)] by simp
qed

lemma env_scores_loop_eq:
  assumes "\<forall>(p, lo, hi) \<in> set rs. lo < hi"
  shows "env_scores_loop sd rs acc =
     Inr (acc @ concat (map (\<lambda>(p, lo, hi). case getattr sd p of None \<Rightarrow> []
                                              | Some v \<Rightarrow> [spec_score lo hi v]) rs))"
  using assms
proof (induction rs arbitrary: acc)
  case Nil
  show ?case by simp
next
  case (Cons r rs)
  obtain p lo hi where r: "r = (p, lo, hi)" by (cases r) auto
  with Cons.prems have w: "lo < hi" by simp
  from Cons.prems have rest: "\<forall>(p, lo, hi) \<in> set rs. lo < hi" by simp
  show ?case
    by (cases "getattr sd p")
       (simp_all add: r Cons.IH [OF rest] score_parameter_eq [OF w])
qed

lemma env_scores_optimal:
  "env_scores_loop sd OPTIMAL_RANGES [] = Inr (present_scores sd)"
  unfolding env_scores_loop_eq [OF optimal_ranges_widths]
  by (simp add: OPTIMAL_RANGES_def present_scores_def getattr_def temperature_range_def
      humidity_range_def moisture_range_def ph_range_def)

lemma calculate_environmental_score_eq:
  "calculate_environmental_score None = Inr 75"
  "calculate_environmental_score (Some sd) =
     Inr (if present_scores sd \<noteq> [] then mean (present_scores sd) else 75)"
  by (simp_all add: calculate_environmental_score_def env_scores_optimal)

text \<open>
  C5. For a range \<open>[lo, hi]\<close> with \<open>lo < hi\<close>, as all four fixed ranges are, the score of
  a value is 100 inside the range and otherwise
  \<open>max 0 (100 - 100 * |value - nearest bound| / (hi - lo))\<close>; it is 100 at both bounds
  and 0 one range width below the range, and it does not increase when the distance from
  the range grows. The environmental score is 75 without a sensor reading, and the
  arithmetic mean of the scores of the parameters present otherwise.
\<close>

theorem C5_parameter_and_environmental_score:
  assumes "lo < hi"
  shows "score_parameter v (lo, hi) = Inr (spec_score lo hi v)
       \<and> score_parameter lo (lo, hi) = Inr 100
       \<and> score_parameter hi (lo, hi) = Inr 100
       \<and> score_parameter (lo - (hi - lo)) (lo, hi) = Inr 0
       \<and> (range_distance lo hi v \<le> range_distance lo hi w \<longrightarrow>
            spec_score lo hi w \<le> spec_score lo hi v)
       \<and> (\<forall>(p, a, b) \<in> set OPTIMAL_RANGES. a < b)
       \<and> calculate_environmental_score None = Inr 75
       \<and> (present_scores sd \<noteq> [] \<longrightarrow>
            calculate_environmental_score (Some sd) = Inr (mean (present_scores sd)))"
proof -
  from assms have "score_parameter lo (lo, hi) = Inr 100" "score_parameter hi (lo, hi) = Inr 100"
    "score_parameter (lo - (hi - lo)) (lo, hi) = Inr 0"
    by (simp_all add: score_parameter_def Let_def)
  with score_parameter_eq [OF assms] spec_score_antimono [OF assms] optimal_ranges_widths
    calculate_environmental_score_eq
  show ?thesis by simp
qed

theorem C5_parameter_and_environmental_score_witness:
  "(18::real) < 30
   \<and> score_parameter 12 temperature_range = Inr 50
   \<and> score_parameter 18 temperature_range = Inr 100
   \<and> score_parameter 30 temperature_range = Inr 100
   \<and> score_parameter 6 temperature_range = Inr 0
   \<and> calculate_environmental_score None = Inr 75
   \<and> calculate_environmental_score
        (Some \<lparr>temperature = Some 12, humidity = Some 55, soil_moisture = None, ph = None\<rparr>)
       = Inr 75"
proof -
  have h: "(18::real) < 30" by simp
  have ps: "present_scores \<lparr>temperature = Some 12, humidity = Some 55, soil_moisture = None,
      ph = None\<rparr> = [50, 100]"
    by (simp add: present_scores_def temperature_range_def humidity_range_def spec_score_def
        nearest_bound_def)
  from C5_parameter_and_environmental_score [OF h, of 12 12
      "\<lparr>temperature = Some 12, humidity = Some 55, soil_moisture = None, ph = None\<rparr>"]
  show ?thesis
    by (simp add: ps mean_def temperature_range_def spec_score_def nearest_bound_def)
qed

section \<open>Confidence and the assessment without evidence\<close>

lemma sum_list_unit_bounds:
  fixes f :: "'a \<Rightarrow> real"
  assumes "\<forall>x \<in> set xs. 0 \<le> f x \<and> f x \<le> 1"
  shows "0 \<le> sum_list (map f xs) \<and> sum_list (map f xs) \<le> real (length xs)"
  using assms by (induction xs) auto

lemma mean_unit_bounds:
  fixes f :: "'a \<Rightarrow> real"
  assumes "xs \<noteq> []" and "\<forall>x \<in> set xs. 0 \<le> f x \<and> f x \<le> 1"
  shows "0 \<le> mean (map f xs) \<and> mean (map f xs) \<le> 1"
proof -
  from assms(1) have n: "0 < real (length xs)" by simp
  from sum_list_unit_bounds [OF assms(2)] n show ?thesis
    by (simp add: mean_def)
qed

lemma half_sum_bounds:
  fixes a b :: real
  assumes "0 \<le> a \<and> a \<le> 100" and "0 \<le> b \<and> b \<le> 100"
  shows "0 \<le> (a + b) / 2 \<and> (a + b) / 2 \<le> 100"
  using assms by simp

lemma available_sensors_eq:
  "length (filter (\<lambda>param. getattr sd param \<noteq> None)
      [''temperature'', ''humidity'', ''soil_moisture'', ''ph'']) =
   length (filter (\<lambda>field. field \<noteq> None)
      [temperature sd, humidity sd, soil_moisture sd, ph sd])"
  by (simp add: getattr_def)

lemma calculate_confidence_eq:
  "calculate_confidence ds sensor =
     ((if ds = [] then 90 else mean (map confidence ds) * 100)
      + (case sensor of
           None \<Rightarrow> 50
         | Some sd \<Rightarrow>
             real (length (filter (\<lambda>field. field \<noteq> None)
                     [temperature sd, humidity sd, soil_moisture sd, ph sd])) / 4 * 100)) / 2"
  by (cases sensor)
     (simp_all only: calculate_confidence_def Let_def available_sensors_eq mean_def
        option.case list.map sum_list.Cons sum_list.Nil list.size, simp_all)

lemma empty_analysis:
  "analyze_detections cs [] =
     \<lparr>classified_detections = [], total_impact = 0, max_priority = 0, affected_area = 0,
      detection_count = 0\<rparr>"
  by (simp add: analyze_detections_def)

lemma unique_loop_Nil: "unique_loop [] {} [] = []"
  by simp

lemma health_score_all_defaults:
  "calculate_health_score cs [] None =
     Inr \<lparr>overall_health = 185 / 2, disease_score = 100, environmental_score = 75,
          risk_level = ''low'', ha_confidence = 70, recommendations = [],
          detected_issues = [], sensor_analysis = []\<rparr>"
  by (simp add: calculate_health_score_def Let_def empty_analysis calculate_disease_score_def
      calculate_environmental_score_def determine_risk_level_def calculate_confidence_def
      generate_recommendations_def analyze_sensor_data_def mean_def)

text \<open>
  C9. The confidence is the mean of the detection signal (mean detection confidence times
  100, or 90 without detections) and the sensor signal (the share of the four sensor
  fields that are set, times 100, or 50 without a reading); it lies between 0 and 100
  whenever every detection confidence lies between 0 and 1. Without detections and
  without a reading the confidence is 70, the overall health 92.5 and the risk level low.
\<close>

theorem C9_confidence_bounds_and_defaults:
  "calculate_confidence detections sensor =
     ((if detections = [] then 90 else mean (map confidence detections) * 100)
      + (case sensor of
           None \<Rightarrow> 50
         | Some sd \<Rightarrow>
             real (length (filter (\<lambda>field. field \<noteq> None)
                     [temperature sd, humidity sd, soil_moisture sd, ph sd])) / 4 * 100)) / 2
   \<and> ((\<forall>d \<in> set detections. 0 \<le> confidence d \<and> confidence d \<le> 1) \<longrightarrow>
        0 \<le> calculate_confidence detections sensor
        \<and> calculate_confidence detections sensor \<le> 100)
   \<and> calculate_confidence [] None = 70
   \<and> map_sum id overall_health (calculate_health_score disease_classes [] None) = Inr (185 / 2)
   \<and> map_sum id ha_confidence (calculate_health_score disease_classes [] None) = Inr 70
   \<and> map_sum id risk_level (calculate_health_score disease_classes [] None) = Inr ''low''"
proof -
  let ?det = "if detections = [] then 90 else mean (map confidence detections) * 100"
  let ?sens = "case sensor of
           None \<Rightarrow> 50
         | Some sd \<Rightarrow>
             real (length (filter (\<lambda>field. field \<noteq> None)
                     [temperature sd, humidity sd, soil_moisture sd, ph sd])) / 4 * 100"
  have sens: "0 \<le> ?sens \<and> ?sens \<le> 100"
  proof (cases sensor)
    case None
    then show ?thesis by simp
  next
    case (Some sd)
    have "length (filter (\<lambda>field. field \<noteq> None)
        [temperature sd, humidity sd, soil_moisture sd, ph sd]) \<le> 4"
      using length_filter_le [of "\<lambda>field. field \<noteq> None"
          "[temperature sd, humidity sd, soil_moisture sd, ph sd]"]
      by simp
    then have "real (length (filter (\<lambda>field. field \<noteq> None)
        [temperature sd, humidity sd, soil_moisture sd, ph sd])) \<le> 4"
      by linarith
    with Some show ?thesis by simp
  qed
  have det: "0 \<le> ?det \<and> ?det \<le> 100"
    if wf: "\<forall>d \<in> set detections. 0 \<le> confidence d \<and> confidence d \<le> 1"
  proof (cases "detections = []")
    case True
    then show ?thesis by simp
  next
    case False
    from mean_unit_bounds [OF False wf] False show ?thesis by simp
  qed
  have bounds: "0 \<le> calculate_confidence detections sensor
        \<and> calculate_confidence detections sensor \<le> 100"
    if wf: "\<forall>d \<in> set detections. 0 \<le> confidence d \<and> confidence d \<le> 1"
    unfolding calculate_confidence_eq by (rule half_sum_bounds [OF det [OF wf] sens])
  have dflt: "calculate_confidence [] None = 70"
    by (simp add: calculate_confidence_eq)
  from calculate_confidence_eq [of detections sensor] bounds dflt
  show ?thesis
    by (simp add: health_score_all_defaults)
qed

theorem C9_confidence_bounds_and_defaults_witness:
  "(0::real) \<le> 9 / 10 \<and> (9 / 10::real) \<le> 1
   \<and> 0 \<le> calculate_confidence
        [\<lparr>class_name = ''blight'', confidence = 9 / 10, bbox = (0, 0, 0, 0), area = 1 / 20\<rparr>]
        (Some \<lparr>temperature = Some 45, humidity = None, soil_moisture = Some 50, ph = None\<rparr>)
   \<and> calculate_confidence
        [\<lparr>class_name = ''blight'', confidence = 9 / 10, bbox = (0, 0, 0, 0), area = 1 / 20\<rparr>]
        (Some \<lparr>temperature = Some 45, humidity = None, soil_moisture = Some 50, ph = None\<rparr>)
       \<le> 100
   \<and> calculate_confidence
        [\<lparr>class_name = ''blight'', confidence = 9 / 10, bbox = (0, 0, 0, 0), area = 1 / 20\<rparr>]
        (Some \<lparr>temperature = Some 45, humidity = None, soil_moisture = Some 50, ph = None\<rparr>)
       = 70
   \<and> calculate_confidence [] None = 70"
  using C9_confidence_bounds_and_defaults [of
      "[\<lparr>class_name = ''blight'', confidence = 9 / 10, bbox = (0, 0, 0, 0), area = 1 / 20\<rparr>]"
      "Some \<lparr>temperature = Some 45, humidity = None, soil_moisture = Some 50, ph = None\<rparr>"
      get_default_classes]
  by (simp add: mean_def)

section \<open>Recommendations\<close>

lemma filter_neq_notin:
  "filter (\<lambda>y. y \<noteq> x) (filter (\<lambda>y. y \<notin> seen) xs) = filter (\<lambda>y. y \<notin> insert x seen) xs"
  by (induction xs) auto

lemma unique_loop_eq:
  "unique_loop xs seen acc = acc @ dedup_first (filter (\<lambda>y. y \<notin> seen) xs)"
proof (induction xs arbitrary: seen acc)
  case Nil
  show ?case by simp
next
  case (Cons x xs)
  show ?case
  proof (cases "x \<in> seen")
    case True
    then show ?thesis by (simp add: Cons.IH)
  next
    case False
    have "unique_loop (x # xs) seen acc = unique_loop xs (insert x seen) (acc @ [x])"
      using False by simp
    also have "\<dots> = (acc @ [x]) @ dedup_first (filter (\<lambda>y. y \<notin> insert x seen) xs)"
      by (rule Cons.IH)
    also have "\<dots> = acc @ x # dedup_first (filter (\<lambda>y. y \<noteq> x) (filter (\<lambda>y. y \<notin> seen) xs))"
      by (simp only: filter_neq_notin append_assoc append_Cons append_Nil)
    also have "\<dots> = acc @ dedup_first (filter (\<lambda>y. y \<notin> seen) (x # xs))"
      using False by simp
    finally show ?thesis .
  qed
qed

lemma unique_loop_dedup_first: "unique_loop xs {} [] = dedup_first xs"
  by (simp add: unique_loop_eq)

lemma set_dedup_first: "set (dedup_first xs) = set xs"
  by (induction xs rule: dedup_first.induct) auto

lemma distinct_dedup_first: "distinct (dedup_first xs)"
  by (induction xs rule: dedup_first.induct) (auto simp: set_dedup_first)

lemma disease_recs_loop_eq:
  "disease_recs_loop cs cl acc =
     acc @ concat (map (\<lambda>c. take 2 (get_treatment_recommendations cs (c_class_name c))) cl)"
  by (induction cl arbitrary: acc) (simp_all add: Let_def)

lemma generate_recommendations_eq:
  "generate_recommendations cs da sensor =
     take 8 (dedup_first
       (concat (map (\<lambda>c. take 2 (get_treatment_recommendations cs (c_class_name c)))
                  (take 3 (classified_detections da)))
        @ (case sensor of None \<Rightarrow> [] | Some sd \<Rightarrow> get_environmental_recommendations sd)
        @ (if 3 \<le> max_priority da
           then [''Schedule follow-up inspection within 3-5 days''] else [])))"
  by (cases sensor)
     (simp_all add: generate_recommendations_def Let_def disease_recs_loop_eq
        unique_loop_dedup_first)

text \<open>
  C7. The recommendation list is the first 8 entries, after removing duplicates while
  keeping first occurrences, of: up to 2 treatment recommendations for each of the first
  3 classified detections, which stand in the order of the detections; then the
  environmental recommendations when a sensor reading is present; then the follow-up
  inspection text exactly when some classified detection has treatment priority 3 or
  more.
\<close>

theorem C7_recommendation_assembly:
  "generate_recommendations disease_classes
       (analyze_detections disease_classes detections) sensor =
     take 8 (dedup_first
       (concat (map (\<lambda>c. take 2 (get_treatment_recommendations disease_classes (c_class_name c)))
                  (take 3 (classified_detections
                             (analyze_detections disease_classes detections))))
        @ (case sensor of None \<Rightarrow> [] | Some sd \<Rightarrow> get_environmental_recommendations sd)
        @ (if \<exists>c \<in> set (classified_detections
                            (analyze_detections disease_classes detections)).
                 3 \<le> c_treatment_priority c
           then [''Schedule follow-up inspection within 3-5 days''] else [])))
   \<and> map c_class_name (classified_detections (analyze_detections disease_classes detections))
       = map class_name detections
   \<and> distinct (generate_recommendations disease_classes
                  (analyze_detections disease_classes detections) sensor)
   \<and> length (generate_recommendations disease_classes
                  (analyze_detections disease_classes detections) sensor) \<le> 8"
proof -
  have esc: "(3 \<le> max_priority (analyze_detections disease_classes detections)) =
      (\<exists>c \<in> set (classified_detections (analyze_detections disease_classes detections)).
          3 \<le> c_treatment_priority c)"
    by (simp add: max_priority_ge_iff)
  have names: "map c_class_name (classified_detections
        (analyze_detections disease_classes detections)) = map class_name detections"
    by (simp add: analyze_detections_fields(1) classify_detection_def o_def
        split: option.split)
  have eq: "generate_recommendations disease_classes
       (analyze_detections disease_classes detections) sensor =
     take 8 (dedup_first
       (concat (map (\<lambda>c. take 2 (get_treatment_recommendations disease_classes (c_class_name c)))
                  (take 3 (classified_detections
                             (analyze_detections disease_classes detections))))
        @ (case sensor of None \<Rightarrow> [] | Some sd \<Rightarrow> get_environmental_recommendations sd)
        @ (if \<exists>c \<in> set (classified_detections
                            (analyze_detections disease_classes detections)).
                 3 \<le> c_treatment_priority c
           then [''Schedule follow-up inspection within 3-5 days''] else [])))"
    unfolding generate_recommendations_eq esc ..
  have dist: "distinct (generate_recommendations disease_classes
                  (analyze_detections disease_classes detections) sensor)"
    unfolding generate_recommendations_eq by (rule distinct_take) (rule distinct_dedup_first)
  have len: "length (generate_recommendations disease_classes
                  (analyze_detections disease_classes detections) sensor) \<le> 8"
    unfolding generate_recommendations_eq by simp
  from eq names dist len show ?thesis by blast
qed

lemma two_blights_classified:
  "map c_class_name (classified_detections (analyze_detections get_default_classes
     [\<lparr>class_name = ''blight'', confidence = 9 / 10, bbox = (0, 0, 0, 0), area = 1 / 20\<rparr>,
      \<lparr>class_name = ''blight'', confidence = 1 / 2, bbox = (0, 0, 0, 0), area = 1 / 10\<rparr>]))
     = [''blight'', ''blight'']
   \<and> map c_treatment_priority (classified_detections (analyze_detections get_default_classes
     [\<lparr>class_name = ''blight'', confidence = 9 / 10, bbox = (0, 0, 0, 0), area = 1 / 20\<rparr>,
      \<lparr>class_name = ''blight'', confidence = 1 / 2, bbox = (0, 0, 0, 0), area = 1 / 10\<rparr>]))
     = [5, 5]"
  by (simp add: analyze_detections_fields(1) classify_detection_def get_disease_info_lookup
      get_default_classes_def disease_entry_blight)

lemma blight_recommendations:
  "get_treatment_recommendations get_default_classes ''blight'' =
     [''URGENT: Take immediate action'', ''Apply appropriate fungicide treatment'',
      ''Improve air circulation around plants'', ''Avoid overhead watering'']"
  by (simp add: treatment_recommendations_matched get_default_classes_def disease_entry_blight)

theorem C7_recommendation_assembly_witness:
  "generate_recommendations get_default_classes
     (analyze_detections get_default_classes
       [\<lparr>class_name = ''blight'', confidence = 9 / 10, bbox = (0, 0, 0, 0), area = 1 / 20\<rparr>,
        \<lparr>class_name = ''blight'', confidence = 1 / 2, bbox = (0, 0, 0, 0), area = 1 / 10\<rparr>])
     (Some \<lparr>temperature = Some 45, humidity = Some 55, soil_moisture = Some 50,
            ph = Some (13 / 2)\<rparr>) =
     [''URGENT: Take immediate action'', ''Apply appropriate fungicide treatment'',
      ''Provide shade or cooling measures'',
      ''Schedule follow-up inspection within 3-5 days'']"
proof -
  let ?ds = "[\<lparr>class_name = ''blight'', confidence = 9 / 10, bbox = (0, 0, 0, 0), area = 1 / 20\<rparr>,
        \<lparr>class_name = ''blight'', confidence = 1 / 2, bbox = (0, 0, 0, 0), area = 1 / 10\<rparr>]"
  let ?cl = "classified_detections (analyze_detections get_default_classes ?ds)"
  from two_blights_classified have len: "length ?cl = 2"
    by (simp add: analyze_detections_fields(6))
  from two_blights_classified
  have recs: "map (\<lambda>c. take 2 (get_treatment_recommendations get_default_classes (c_class_name c)))
                (take 3 ?cl) =
      [[''URGENT: Take immediate action'', ''Apply appropriate fungicide treatment''],
       [''URGENT: Take immediate action'', ''Apply appropriate fungicide treatment'']]"
  proof -
    have "map (\<lambda>c. take 2 (get_treatment_recommendations get_default_classes (c_class_name c)))
                (take 3 ?cl) =
          map (\<lambda>n. take 2 (get_treatment_recommendations get_default_classes n))
                (map c_class_name ?cl)"
      using len by (simp add: o_def)
    also have "\<dots> = [[''URGENT: Take immediate action'', ''Apply appropriate fungicide treatment''],
       [''URGENT: Take immediate action'', ''Apply appropriate fungicide treatment'']]"
      using two_blights_classified by (simp add: blight_recommendations)
    finally show ?thesis .
  qed
  have prio: "\<exists>c \<in> set ?cl. 3 \<le> c_treatment_priority c"
  proof -
    from two_blights_classified have "5 \<in> set (map c_treatment_priority ?cl)"
      by simp
    then obtain c where "c \<in> set ?cl" and "c_treatment_priority c = 5"
      by auto
    then show ?thesis by force
  qed
  have env: "get_environmental_recommendations
      \<lparr>temperature = Some 45, humidity = Some 55, soil_moisture = Some 50, ph = Some (13 / 2)\<rparr>
      = [''Provide shade or cooling measures'']"
    by (simp add: get_environmental_recommendations_def temperature_range_def
        humidity_range_def moisture_range_def)
  from C7_recommendation_assembly [of get_default_classes ?ds
      "Some \<lparr>temperature = Some 45, humidity = Some 55, soil_moisture = Some 50,
            ph = Some (13 / 2)\<rparr>"]
  have "generate_recommendations get_default_classes
     (analyze_detections get_default_classes ?ds)
     (Some \<lparr>temperature = Some 45, humidity = Some 55, soil_moisture = Some 50,
            ph = Some (13 / 2)\<rparr>) =
     take 8 (dedup_first
       (concat (map (\<lambda>c. take 2 (get_treatment_recommendations get_default_classes (c_class_name c)))
                  (take 3 ?cl))
        @ get_environmental_recommendations
            \<lparr>temperature = Some 45, humidity = Some 55, soil_moisture = Some 50,
             ph = Some (13 / 2)\<rparr>
        @ [''Schedule follow-up inspection within 3-5 days'']))"
    using prio by simp
  then show ?thesis
    unfolding recs env by simp
qed

end
